theory Spec2Isabelle
  imports Complex_Main "HOL-Library.Multiset"
begin

section \<open>Data model\<close>

text \<open>
  The two data files \<^verbatim>\<open>./data/categories.json\<close> and \<^verbatim>\<open>./data/trivia.json\<close> are imported by
  \<^verbatim>\<open>src/index.ts\<close> but are not part of the sources at hand, so their contents are parameters
  of every definition below. Their element types are the ones the response schemas of
  \<^verbatim>\<open>index.ts\<close> document: a category has \<^verbatim>\<open>id\<close>, \<^verbatim>\<open>image\<close>, \<^verbatim>\<open>name\<close>; a trivia has \<^verbatim>\<open>id\<close>,
  \<^verbatim>\<open>question\<close>, \<^verbatim>\<open>options\<close> (each with \<^verbatim>\<open>id\<close> and \<^verbatim>\<open>text\<close>), \<^verbatim>\<open>answer\<close>, \<^verbatim>\<open>category\<close>,
  \<^verbatim>\<open>difficulty\<close>. Field names carry a prefix (\<open>c_\<close>, \<open>o_\<close>, \<open>t_\<close>) because \<open>id\<close> and \<open>image\<close>
  are constants of HOL. Numeric fields are integers; \<^verbatim>\<open>difficulty\<close> is the string the file
  holds.
\<close>

record category =
  c_id :: int
  c_image :: string
  c_name :: string

record trivia_option =
  o_id :: int
  o_text :: string

record trivia =
  t_id :: int
  t_question :: string
  t_options :: "trivia_option list"
  t_answer :: int
  t_category :: int
  t_difficulty :: string

subsection \<open>Numbers\<close>

text \<open>
  The only numbers the handlers compute with are integers read from the data files and
  the results of \<^verbatim>\<open>Number(s)\<close> on a string of decimal digits, which is a non-negative
  integer or \<^verbatim>\<open>Infinity\<close>.
\<close>

datatype jsnum = Finite int | Infinity

fun num_less :: "jsnum \<Rightarrow> jsnum \<Rightarrow> bool" where
  "num_less (Finite a) (Finite b) = (a < b)"
| "num_less (Finite a) Infinity = True"
| "num_less Infinity b = False"

definition is_digit :: "char \<Rightarrow> bool" where
  "is_digit c = (48 \<le> (of_char c :: nat) \<and> (of_char c :: nat) \<le> 57)"

definition digit_value :: "char \<Rightarrow> int" where
  "digit_value c = of_char c - 48"

text \<open>The pattern \<^verbatim>\<open>^[0-9]+$\<close> of the query schema: one or more ASCII digits, nothing else.\<close>

definition matches_digits :: "string \<Rightarrow> bool" where
  "matches_digits s = (s \<noteq> [] \<and> list_all is_digit s)"

definition decimal_value :: "string \<Rightarrow> int" where
  "decimal_value s = foldl (\<lambda>n c. 10 * n + digit_value c) 0 s"

text \<open>
  A JavaScript number is an IEEE double. An integer below \<open>2 ^ 53\<close> is represented
  exactly; a larger one is rounded to 53 significant bits, ties to even, and overflows to
  \<^verbatim>\<open>Infinity\<close> when the rounded value reaches \<open>2 ^ 1024\<close>. \<open>bit_length n\<close> is the number
  of binary digits of \<open>n\<close>.
\<close>

function bit_length :: "int \<Rightarrow> nat" where
  "bit_length n = (if n \<le> 0 then 0 else Suc (bit_length (n div 2)))"
  by pat_completeness auto
termination
  by (relation "measure nat") auto

definition round_to_double :: "int \<Rightarrow> jsnum" where
  "round_to_double n =
     (if n < 2 ^ 53 then Finite n
      else
        let e = bit_length n - 53;
            q = n div 2 ^ e;
            r = n mod 2 ^ e;
            h = 2 ^ (e - 1);
            q' = (if h < r \<or> (r = h \<and> odd q) then q + 1 else q);
            v = q' * 2 ^ e
        in if 2 ^ 1024 \<le> v then Infinity else Finite v)"

text \<open>
  \<^verbatim>\<open>Number(s)\<close> for a string \<open>s\<close> that matches \<^verbatim>\<open>^[0-9]+$\<close>. The handler applies \<^verbatim>\<open>Number\<close>
  only to query parameters that passed this pattern (see \<open>trivia_route\<close>), so no other
  string is modelled.
\<close>

definition Number :: "string \<Rightarrow> jsnum" where
  "Number s = round_to_double (decimal_value s)"

subsection \<open>JSON values and responses\<close>

text \<open>
  \<^verbatim>\<open>JSON.stringify\<close> is modelled up to the text it prints: the body of a response is the
  JSON value, an object being the list of its members in order.
\<close>

datatype json =
    JNumber int
  | JString string
  | JArray "json list"
  | JObject "(string \<times> json) list"

fun json_elements :: "json \<Rightarrow> json list" where
  "json_elements (JArray js) = js"
| "json_elements j = []"

fun json_field :: "string \<Rightarrow> json \<Rightarrow> json option" where
  "json_field k (JObject ms) = map_of ms k"
| "json_field k j = None"

definition json_of_category :: "category \<Rightarrow> json" where
  "json_of_category c =
     JObject [(''id'', JNumber (c_id c)), (''image'', JString (c_image c)),
              (''name'', JString (c_name c))]"

definition json_of_option :: "trivia_option \<Rightarrow> json" where
  "json_of_option ob = JObject [(''id'', JNumber (o_id ob)), (''text'', JString (o_text ob))]"

definition json_of_trivia :: "trivia \<Rightarrow> json" where
  "json_of_trivia t =
     JObject [(''id'', JNumber (t_id t)), (''question'', JString (t_question t)),
              (''options'', JArray (map json_of_option (t_options t))),
              (''answer'', JNumber (t_answer t)), (''category'', JNumber (t_category t)),
              (''difficulty'', JString (t_difficulty t))]"

record response =
  status :: nat
  headers :: "(string \<times> string) list"
  body :: json

definition json_headers :: "(string \<times> string) list" where
  "json_headers = [(''Content-Type'', ''application/json'')]"

definition BASE_URL :: string where
  "BASE_URL = ''https://trivia-time-api.onrender.com''"

text \<open>
  \<^verbatim>\<open>sendError(error, status = 500, code)\<close>: the status is optional and defaults to 500 when
  the caller passes \<^verbatim>\<open>undefined\<close> (\<open>None\<close>).
\<close>

definition sendError :: "string \<Rightarrow> nat option \<Rightarrow> string \<Rightarrow> response" where
  "sendError error status_arg code =
     \<lparr> status = (case status_arg of None \<Rightarrow> 500 | Some s \<Rightarrow> s),
       headers = json_headers,
       body = JObject [(''error_type'', JString code), (''error'', JString error),
                       (''docs'', JString (BASE_URL @ ''/docs''))] \<rparr>"

text \<open>
  The error codes the framework hands to \<^verbatim>\<open>onError\<close> are the keys of the handler's own
  \<^verbatim>\<open>statusCodes\<close> table. The table is an object literal: a lookup of a key it does not have
  is \<^verbatim>\<open>undefined\<close>.
\<close>

datatype error_code = UNKNOWN | NOT_FOUND | PARSE | VALIDATION | INTERNAL_SERVER_ERROR

fun code_name :: "error_code \<Rightarrow> string" where
  "code_name UNKNOWN = ''UNKNOWN''"
| "code_name NOT_FOUND = ''NOT_FOUND''"
| "code_name PARSE = ''PARSE''"
| "code_name VALIDATION = ''VALIDATION''"
| "code_name INTERNAL_SERVER_ERROR = ''INTERNAL_SERVER_ERROR''"

definition statusCodes :: "string \<Rightarrow> nat option" where
  "statusCodes = map_of [(''UNKNOWN'', 500), (''NOT_FOUND'', 404), (''PARSE'', 400),
                         (''VALIDATION'', 400), (''INTERNAL_SERVER_ERROR'', 500)]"

definition onError :: "error_code \<Rightarrow> string \<Rightarrow> response" where
  "onError code message = sendError message (statusCodes (code_name code)) (code_name code)"

section \<open>The store and the arrays in it\<close>

text \<open>
  \<^verbatim>\<open>categories\<close> and \<^verbatim>\<open>trivia\<close> are module-level arrays that every request shares, and
  \<^verbatim>\<open>Array.prototype.sort\<close> sorts the array it is called on in place. Arrays therefore live
  in a heap: an address is an index into the list of allocated arrays, allocation appends.
  The world also counts the calls of \<^verbatim>\<open>Math.random\<close> made so far; the random source
  itself is a parameter \<open>rnd\<close>, whose \<open>k\<close>-th value is what the \<open>k\<close>-th call returns.
  \<^verbatim>\<open>console.log\<close> is not modelled.
\<close>

datatype obj = CategoryArray "category list" | TriviaArray "trivia list"

record world =
  heap :: "obj list"
  rand_calls :: nat

fun lookup :: "obj list \<Rightarrow> nat \<Rightarrow> obj option" where
  "lookup [] a = None"
| "lookup (x # xs) 0 = Some x"
| "lookup (x # xs) (Suc a) = lookup xs a"

definition alloc :: "obj \<Rightarrow> world \<Rightarrow> nat \<times> world" where
  "alloc ob w = (length (heap w), w\<lparr>heap := heap w @ [ob]\<rparr>)"

text \<open>The two imports are bound once, when the module is loaded.\<close>

definition categories_ref :: nat where
  "categories_ref = 0"

definition trivia_ref :: nat where
  "trivia_ref = 1"

definition boot :: "category list \<Rightarrow> trivia list \<Rightarrow> world" where
  "boot cs ts = \<lparr> heap = [CategoryArray cs, TriviaArray ts], rand_calls = 0 \<rparr>"

text \<open>Reading an array; an address that holds no array of the expected kind reads as empty.\<close>

definition category_array :: "world \<Rightarrow> nat \<Rightarrow> category list" where
  "category_array w a = (case lookup (heap w) a of Some (CategoryArray cs) \<Rightarrow> cs | _ \<Rightarrow> [])"

definition trivia_array :: "world \<Rightarrow> nat \<Rightarrow> trivia list" where
  "trivia_array w a = (case lookup (heap w) a of Some (TriviaArray ts) \<Rightarrow> ts | _ \<Rightarrow> [])"

subsection \<open>The shuffle\<close>

text \<open>
  The comparator \<^verbatim>\<open>() => Math.random() - 0.5\<close> ignores its arguments; its \<open>k\<close>-th call
  returns \<open>rnd k - 1/2\<close>.
\<close>

definition compareFn :: "(nat \<Rightarrow> rat) \<Rightarrow> nat \<Rightarrow> rat" where
  "compareFn rnd k = rnd k - 1 / 2"

text \<open>
  The sort itself belongs to the JavaScript engine. It is modelled on the merge sort of
  JavaScriptCore, the engine of Bun (\<^verbatim>\<open>mergeSort\<close> and \<^verbatim>\<open>merge\<close> of its array builtins): runs of
  length one are merged pairwise, pass after pass, from left to right; a run without a
  partner is carried over. While both runs have elements, a merge step calls
  \<^verbatim>\<open>comparator(src[right], src[left])\<close> and takes the element of the right run when the
  answer is negative, the element of the left run otherwise; when one run is used up the
  rest of the other is copied without a call. The counter of comparator calls is threaded
  through. ECMAScript leaves the order that such a comparator yields to the engine, and
  other engines and versions order differently; the statements below depend on the sort
  only in that it rearranges its input.
\<close>

fun merge_runs :: "(nat \<Rightarrow> rat) \<Rightarrow> 'a list \<Rightarrow> 'a list \<Rightarrow> nat \<Rightarrow> 'a list \<times> nat" where
  "merge_runs rnd [] ys k = (ys, k)"
| "merge_runs rnd (x # xs) [] k = (x # xs, k)"
| "merge_runs rnd (x # xs) (y # ys) k =
     (if compareFn rnd k < 0
      then (case merge_runs rnd (x # xs) ys (Suc k) of (zs, k') \<Rightarrow> (y # zs, k'))
      else (case merge_runs rnd xs (y # ys) (Suc k) of (zs, k') \<Rightarrow> (x # zs, k')))"

fun merge_pass :: "(nat \<Rightarrow> rat) \<Rightarrow> 'a list list \<Rightarrow> nat \<Rightarrow> 'a list list \<times> nat" where
  "merge_pass rnd [] k = ([], k)"
| "merge_pass rnd [xs] k = ([xs], k)"
| "merge_pass rnd (xs # ys # rest) k =
     (case merge_runs rnd xs ys k of
        (m, k1) \<Rightarrow> (case merge_pass rnd rest k1 of (ms, k2) \<Rightarrow> (m # ms, k2)))"

function merge_passes :: "(nat \<Rightarrow> rat) \<Rightarrow> 'a list list \<Rightarrow> nat \<Rightarrow> 'a list \<times> nat" where
  "merge_passes rnd [] k = ([], k)"
| "merge_passes rnd [xs] k = (xs, k)"
| "merge_passes rnd (xs # ys # rest) k =
     merge_passes rnd (fst (merge_pass rnd (xs # ys # rest) k))
                      (snd (merge_pass rnd (xs # ys # rest) k))"
  by pat_completeness auto
termination
proof (relation "measure (\<lambda>p. length (fst (snd p)))")
  show "wf (measure (\<lambda>p :: (nat \<Rightarrow> rat) \<times> 'a list list \<times> nat. length (fst (snd p))))"
    by simp
next
  fix rnd :: "nat \<Rightarrow> rat" and xs ys :: "'a list" and rest :: "'a list list" and k :: nat
  have halves: "length (fst (merge_pass rnd runs k)) = (length runs + 1) div 2"
    for runs :: "'a list list" and k
    by (induction rnd runs k rule: merge_pass.induct) (auto split: prod.splits)
  show "((rnd, fst (merge_pass rnd (xs # ys # rest) k),
          snd (merge_pass rnd (xs # ys # rest) k)), (rnd, xs # ys # rest, k))
        \<in> measure (\<lambda>p. length (fst (snd p)))"
    using halves [of "xs # ys # rest" k] by (simp del: merge_pass.simps)
qed

definition shuffle_list :: "(nat \<Rightarrow> rat) \<Rightarrow> 'a list \<Rightarrow> nat \<Rightarrow> 'a list \<times> nat" where
  "shuffle_list rnd xs k = merge_passes rnd (map (\<lambda>x. [x]) xs) k"

subsection \<open>Array methods\<close>

text \<open>
  \<^verbatim>\<open>a.filter(p)\<close> and \<^verbatim>\<open>a.slice(0, end)\<close> allocate a new array and leave \<open>a\<close> alone;
  \<^verbatim>\<open>a.sort(compareFn)\<close> overwrites \<open>a\<close> and returns the same address. \<^verbatim>\<open>slice\<close> counts a
  negative end from the end of the array.
\<close>

fun slice_from_start :: "'a list \<Rightarrow> jsnum \<Rightarrow> 'a list" where
  "slice_from_start xs (Finite n) =
     (if n < 0 then take (nat (int (length xs) + n)) xs else take (nat n) xs)"
| "slice_from_start xs Infinity = xs"

definition Array_filter :: "(trivia \<Rightarrow> bool) \<Rightarrow> nat \<Rightarrow> world \<Rightarrow> nat \<times> world" where
  "Array_filter p a w = alloc (TriviaArray (filter p (trivia_array w a))) w"

definition Array_sort :: "(nat \<Rightarrow> rat) \<Rightarrow> nat \<Rightarrow> world \<Rightarrow> nat \<times> world" where
  "Array_sort rnd a w =
     (case lookup (heap w) a of
        Some (TriviaArray ts) \<Rightarrow>
          (case shuffle_list rnd ts (rand_calls w) of
             (ts', k') \<Rightarrow> (a, w\<lparr>heap := (heap w)[a := TriviaArray ts'], rand_calls := k'\<rparr>))
      | _ \<Rightarrow> (a, w))"

definition Array_slice :: "nat \<Rightarrow> jsnum \<Rightarrow> world \<Rightarrow> nat \<times> world" where
  "Array_slice a e w = alloc (TriviaArray (slice_from_start (trivia_array w a) e)) w"

section \<open>The routes\<close>

subsection \<open>\<^verbatim>\<open>GET /v1/categories\<close>\<close>

text \<open>
  The handler takes no argument and serialises the module-level array. The earlier version
  of the server among the sources has the same handler.
\<close>

definition categories_route :: "world \<Rightarrow> response \<times> world" where
  "categories_route w =
     (\<lparr> status = 200, headers = json_headers,
        body = JArray (map json_of_category (category_array w categories_ref)) \<rparr>, w)"

subsection \<open>\<^verbatim>\<open>GET /v1/trivia\<close>\<close>

text \<open>The query of a request: each parameter is a string, or absent.\<close>

record query =
  category :: "string option"
  difficulty :: "string option"
  limit :: "string option"

text \<open>
  The query schema of the route: \<^verbatim>\<open>category\<close> is a required string matching \<^verbatim>\<open>^[0-9]+$\<close>,
  \<^verbatim>\<open>difficulty\<close> is optional and one of four values, \<^verbatim>\<open>limit\<close> is an optional string
  matching \<^verbatim>\<open>^[0-9]+$\<close>. The framework checks it before it calls the handler; a query that
  fails reaches \<^verbatim>\<open>onError\<close> with the code \<^verbatim>\<open>VALIDATION\<close>. The message is the \<^verbatim>\<open>error\<close> text
  of the first property that fails, in the order of the schema.
\<close>

definition category_ok :: "string option \<Rightarrow> bool" where
  "category_ok c = (case c of None \<Rightarrow> False | Some s \<Rightarrow> matches_digits s)"

definition difficulty_ok :: "string option \<Rightarrow> bool" where
  "difficulty_ok d =
     (case d of None \<Rightarrow> True | Some s \<Rightarrow> s \<in> set [''easy'', ''medium'', ''hard'', ''any''])"

definition limit_ok :: "string option \<Rightarrow> bool" where
  "limit_ok l = (case l of None \<Rightarrow> True | Some s \<Rightarrow> matches_digits s)"

definition validate_query :: "query \<Rightarrow> string option" where
  "validate_query q =
     (if \<not> category_ok (category q)
        then Some ''Missing or Invalid required parameter 'category'.''
      else if \<not> difficulty_ok (difficulty q)
        then Some ''Invalid value for parameter 'difficulty'.''
      else if \<not> limit_ok (limit q)
        then Some ''Invalid value for parameter 'limit'.''
      else None)"

text \<open>
  \<^verbatim>\<open>const { category, difficulty = "any", limit = 10 } = query\<close>: an absent \<^verbatim>\<open>difficulty\<close>
  is \<^verbatim>\<open>"any"\<close>, an absent \<^verbatim>\<open>limit\<close> is the number 10, so that \<^verbatim>\<open>Number(limit)\<close> is 10.
\<close>

definition difficulty_or_default :: "string option \<Rightarrow> string" where
  "difficulty_or_default d = (case d of None \<Rightarrow> ''any'' | Some s \<Rightarrow> s)"

definition limit_number :: "string option \<Rightarrow> jsnum" where
  "limit_number l = (case l of None \<Rightarrow> Finite 10 | Some s \<Rightarrow> Number s)"

text \<open>The callback of \<^verbatim>\<open>categories.find\<close>: \<^verbatim>\<open>(c) => c.id === Number(category)\<close>.\<close>

definition has_id :: "string \<Rightarrow> category \<Rightarrow> bool" where
  "has_id category_s c = (Finite (c_id c) = Number category_s)"

text \<open>The callback of \<^verbatim>\<open>trivia.filter\<close>.\<close>

definition matching :: "string \<Rightarrow> string \<Rightarrow> trivia \<Rightarrow> bool" where
  "matching category_s difficulty_s t =
     (Finite (t_category t) = Number category_s \<and>
      (difficulty_s = ''any'' \<or> t_difficulty t = difficulty_s))"

text \<open>The handler, called with the three parameters of a query that passed the schema.\<close>

definition trivia_handler ::
  "(nat \<Rightarrow> rat) \<Rightarrow> string \<Rightarrow> string option \<Rightarrow> string option \<Rightarrow> world \<Rightarrow> response \<times> world" where
  "trivia_handler rnd category_s difficulty_p limit_p w =
     (if find (has_id category_s) (category_array w categories_ref) = None
      then (sendError ''Invalid value for parameter 'category'.'' (Some 404) ''NOT_FOUND'', w)
      else if num_less (limit_number limit_p) (Finite 1) \<or> num_less (Finite 50) (limit_number limit_p)
      then (sendError ''Invalid value for parameter 'limit'. Must be between 1 and 50.''
              (Some 400) ''VALIDATION'', w)
      else
        (case Array_filter (matching category_s (difficulty_or_default difficulty_p)) trivia_ref w of
           (filteredTrivia, w1) \<Rightarrow>
             (case Array_sort rnd filteredTrivia w1 of
                (shuffledTrivia, w2) \<Rightarrow>
                  (case Array_slice shuffledTrivia (limit_number limit_p) w2 of
                     (limitedTrivia, w3) \<Rightarrow>
                       (\<lparr> status = 200, headers = json_headers,
                          body = JArray (map json_of_trivia (trivia_array w3 limitedTrivia)) \<rparr>,
                        w3)))))"

definition trivia_route :: "(nat \<Rightarrow> rat) \<Rightarrow> query \<Rightarrow> world \<Rightarrow> response \<times> world" where
  "trivia_route rnd q w =
     (case validate_query q of
        Some message \<Rightarrow> (onError VALIDATION message, w)
      | None \<Rightarrow>
          (case category q of
             None \<Rightarrow> (onError VALIDATION ''Missing or Invalid required parameter 'category'.'', w)
           | Some c \<Rightarrow> trivia_handler rnd c (difficulty q) (limit q) w))"

subsection \<open>A run of the server\<close>

datatype request = GetCategories | GetTrivia query

fun serve :: "(nat \<Rightarrow> rat) \<Rightarrow> request \<Rightarrow> world \<Rightarrow> response \<times> world" where
  "serve rnd GetCategories w = categories_route w"
| "serve rnd (GetTrivia q) w = trivia_route rnd q w"

fun serve_all :: "(nat \<Rightarrow> rat) \<Rightarrow> request list \<Rightarrow> world \<Rightarrow> world" where
  "serve_all rnd [] w = w"
| "serve_all rnd (r # rs) w = serve_all rnd rs (snd (serve rnd r w))"

section \<open>Vocabulary of the statements\<close>

text \<open>The store holds the categories \<open>cs\<close> and the trivia \<open>ts\<close> under the two module bindings.\<close>

definition store_holds :: "category list \<Rightarrow> trivia list \<Rightarrow> world \<Rightarrow> bool" where
  "store_holds cs ts w =
     (lookup (heap w) categories_ref = Some (CategoryArray cs) \<and>
      lookup (heap w) trivia_ref = Some (TriviaArray ts))"

text \<open>The ids of the existing categories, as numbers.\<close>

definition category_ids :: "category list \<Rightarrow> jsnum list" where
  "category_ids cs = map (\<lambda>c. Finite (c_id c)) cs"

text \<open>
  The filter as the specification words it, for the requested category id \<open>n\<close> and the
  difficulty parameter \<open>d\<close> of the request: the question's category equals the requested
  category, and the requested difficulty is absent, or is \<^verbatim>\<open>"any"\<close>, or equals the question's
  difficulty.
\<close>

definition specified_match :: "int \<Rightarrow> string option \<Rightarrow> trivia \<Rightarrow> bool" where
  "specified_match n d t =
     (t_category t = n \<and>
      (case d of None \<Rightarrow> True | Some s \<Rightarrow> s = ''any'' \<or> t_difficulty t = s))"

text \<open>
  The shape of an error response as the specification words it: a JSON object with exactly
  the members \<^verbatim>\<open>error_type\<close>, \<^verbatim>\<open>error\<close>, \<^verbatim>\<open>docs\<close>, all strings, \<^verbatim>\<open>docs\<close> the fixed
  documentation link, and the status that goes with the error type: 400 for \<^verbatim>\<open>VALIDATION\<close>
  and \<^verbatim>\<open>PARSE\<close>, 404 for \<^verbatim>\<open>NOT_FOUND\<close>, 500 for \<^verbatim>\<open>INTERNAL_SERVER_ERROR\<close> and \<^verbatim>\<open>UNKNOWN\<close>.
\<close>

fun json_members :: "json \<Rightarrow> (string \<times> json) list" where
  "json_members (JObject ms) = ms"
| "json_members j = []"

fun string_of :: "json option \<Rightarrow> string option" where
  "string_of (Some (JString s)) = Some s"
| "string_of j = None"

definition specified_status :: "string \<Rightarrow> nat option" where
  "specified_status =
     map_of [(''VALIDATION'', 400), (''PARSE'', 400), (''NOT_FOUND'', 404),
             (''INTERNAL_SERVER_ERROR'', 500), (''UNKNOWN'', 500)]"

definition error_response_shape :: "response \<Rightarrow> bool" where
  "error_response_shape r =
     (map fst (json_members (body r)) = [''error_type'', ''error'', ''docs''] \<and>
      (case string_of (json_field ''error_type'' (body r)) of
         None \<Rightarrow> False
       | Some t \<Rightarrow> specified_status t = Some (status r)) \<and>
      string_of (json_field ''error'' (body r)) \<noteq> None \<and>
      string_of (json_field ''docs'' (body r)) = Some ''https://trivia-time-api.onrender.com/docs'')"

subsection \<open>Sample data\<close>

definition sample_categories :: "category list" where
  "sample_categories =
     [\<lparr> c_id = 1, c_image = [], c_name = ''General Knowledge'' \<rparr>,
      \<lparr> c_id = 2, c_image = [], c_name = ''Science'' \<rparr>]"

definition sample_question :: "int \<Rightarrow> int \<Rightarrow> string \<Rightarrow> trivia" where
  "sample_question i c d =
     \<lparr> t_id = i, t_question = ''What is the capital of the USA?'',
       t_options = [\<lparr> o_id = 1, o_text = ''New York'' \<rparr>,
                    \<lparr> o_id = 2, o_text = ''Washington D.C.'' \<rparr>],
       t_answer = 2, t_category = c, t_difficulty = d \<rparr>"

definition sample_trivia :: "trivia list" where
  "sample_trivia =
     [sample_question 1 1 ''easy'', sample_question 2 1 ''hard'',
      sample_question 3 1 ''easy'', sample_question 4 1 ''easy'']"

definition sample_rnd :: "nat \<Rightarrow> rat" where
  "sample_rnd k = (if even k then 3 / 4 else 1 / 4)"

definition sample_query :: "string \<Rightarrow> string option \<Rightarrow> string option \<Rightarrow> query" where
  "sample_query c d l = \<lparr> category = Some c, difficulty = d, limit = l \<rparr>"

section \<open>The shuffle only rearranges\<close>

lemma mset_merge_runs: "mset (fst (merge_runs rnd xs ys k)) = mset xs + mset ys"
  by (induction rnd xs ys k rule: merge_runs.induct) (auto split: prod.splits)

lemma mset_merge_pass:
  "sum_list (map mset (fst (merge_pass rnd runs k))) = sum_list (map mset runs)"
proof (induction rnd runs k rule: merge_pass.induct)
  case (3 rnd xs ys rest k)
  obtain m k1 where m: "merge_runs rnd xs ys k = (m, k1)"
    by (cases "merge_runs rnd xs ys k")
  obtain ms k2 where ms: "merge_pass rnd rest k1 = (ms, k2)"
    by (cases "merge_pass rnd rest k1")
  have "mset m = mset xs + mset ys"
    using mset_merge_runs [of rnd xs ys k] m by simp
  moreover have "sum_list (map mset ms) = sum_list (map mset rest)"
    using "3.IH" [OF m [symmetric]] ms by simp
  ultimately show ?case
    using m ms by (simp add: add.assoc)
qed simp_all

lemma mset_merge_passes:
  "mset (fst (merge_passes rnd runs k)) = sum_list (map mset runs)"
proof (induction rnd runs k rule: merge_passes.induct)
  case (3 rnd xs ys rest k)
  have "mset (fst (merge_passes rnd (xs # ys # rest) k))
        = sum_list (map mset (fst (merge_pass rnd (xs # ys # rest) k)))"
    using "3.IH" by (simp del: merge_pass.simps)
  also have "\<dots> = sum_list (map mset (xs # ys # rest))"
    by (rule mset_merge_pass)
  finally show ?case .
qed simp_all

lemma mset_shuffle_list: "mset (fst (shuffle_list rnd xs k)) = mset xs"
proof -
  have "sum_list (map mset (map (\<lambda>x. [x]) xs)) = mset xs"
    by (induction xs) simp_all
  then show ?thesis
    by (simp add: shuffle_list_def mset_merge_passes)
qed

lemma length_shuffle_list: "length (fst (shuffle_list rnd xs k)) = length xs"
  using mset_shuffle_list [of rnd xs k] by (metis size_mset)

lemma set_shuffle_list: "set (fst (shuffle_list rnd xs k)) = set xs"
  using mset_shuffle_list [of rnd xs k] by (metis set_mset_mset)

section \<open>The heap\<close>

lemma lookup_Some_less: "lookup h a = Some ob \<Longrightarrow> a < length h"
  by (induction h a rule: lookup.induct) auto

lemma lookup_append_new: "lookup (h @ [ob]) (length h) = Some ob"
  by (induction h) auto

lemma lookup_append_prefix: "a < length h \<Longrightarrow> lookup (h @ hs) a = lookup h a"
  by (induction h a rule: lookup.induct) auto

section \<open>The handler, branch by branch\<close>

lemma find_has_id: "(find (has_id c) cs = None) = (Number c \<notin> set (category_ids cs))"
  by (force simp: find_None_iff has_id_def category_ids_def image_iff)

lemma trivia_handler_not_found:
  assumes "store_holds cs ts w" and "Number c \<notin> set (category_ids cs)"
  shows "trivia_handler rnd c d l w =
           (sendError ''Invalid value for parameter 'category'.'' (Some 404) ''NOT_FOUND'', w)"
  using assms
  by (simp add: trivia_handler_def store_holds_def category_array_def find_has_id)

lemma trivia_handler_bad_limit:
  assumes "store_holds cs ts w" and "Number c \<in> set (category_ids cs)"
      and "num_less (limit_number l) (Finite 1) \<or> num_less (Finite 50) (limit_number l)"
  shows "trivia_handler rnd c d l w =
           (sendError ''Invalid value for parameter 'limit'. Must be between 1 and 50.''
              (Some 400) ''VALIDATION'', w)"
  using assms
  by (simp add: trivia_handler_def store_holds_def category_array_def find_has_id)

text \<open>The three array calls of the handler, one after the other.\<close>

lemma filter_sort_slice:
  assumes "lookup (heap w) trivia_ref = Some (TriviaArray ts)"
      and "shuffle_list rnd (filter p ts) (rand_calls w) = (ys, k')"
  shows "Array_filter p trivia_ref w
           = (length (heap w), w\<lparr>heap := heap w @ [TriviaArray (filter p ts)]\<rparr>)"
    and "Array_sort rnd (length (heap w)) (w\<lparr>heap := heap w @ [TriviaArray (filter p ts)]\<rparr>)
           = (length (heap w), w\<lparr>heap := heap w @ [TriviaArray ys], rand_calls := k'\<rparr>)"
    and "Array_slice (length (heap w)) n (w\<lparr>heap := heap w @ [TriviaArray ys], rand_calls := k'\<rparr>)
           = (Suc (length (heap w)),
              w\<lparr>heap := heap w @ [TriviaArray ys, TriviaArray (slice_from_start ys n)],
                rand_calls := k'\<rparr>)"
    and "trivia_array (w\<lparr>heap := heap w @ [TriviaArray ys, TriviaArray (slice_from_start ys n)],
                         rand_calls := k'\<rparr>) (Suc (length (heap w)))
           = slice_from_start ys n"
proof -
  show "Array_filter p trivia_ref w
          = (length (heap w), w\<lparr>heap := heap w @ [TriviaArray (filter p ts)]\<rparr>)"
    using assms(1) by (simp add: Array_filter_def alloc_def trivia_array_def)
  show "Array_sort rnd (length (heap w)) (w\<lparr>heap := heap w @ [TriviaArray (filter p ts)]\<rparr>)
          = (length (heap w), w\<lparr>heap := heap w @ [TriviaArray ys], rand_calls := k'\<rparr>)"
    using assms(2) by (simp add: Array_sort_def lookup_append_new)
  show "Array_slice (length (heap w)) n (w\<lparr>heap := heap w @ [TriviaArray ys], rand_calls := k'\<rparr>)
          = (Suc (length (heap w)),
             w\<lparr>heap := heap w @ [TriviaArray ys, TriviaArray (slice_from_start ys n)],
               rand_calls := k'\<rparr>)"
    by (simp add: Array_slice_def alloc_def trivia_array_def lookup_append_new)
  show "trivia_array (w\<lparr>heap := heap w @ [TriviaArray ys, TriviaArray (slice_from_start ys n)],
                        rand_calls := k'\<rparr>) (Suc (length (heap w)))
          = slice_from_start ys n"
    using lookup_append_new [of "heap w @ [TriviaArray ys]" "TriviaArray (slice_from_start ys n)"]
    by (simp add: trivia_array_def)
qed

lemma trivia_handler_success:
  assumes "store_holds cs ts w" and "Number c \<in> set (category_ids cs)"
      and "\<not> num_less (limit_number l) (Finite 1)" and "\<not> num_less (Finite 50) (limit_number l)"
      and "shuffle_list rnd (filter (matching c (difficulty_or_default d)) ts) (rand_calls w) = (ys, k')"
  shows "trivia_handler rnd c d l w =
           (\<lparr> status = 200, headers = json_headers,
              body = JArray (map json_of_trivia (slice_from_start ys (limit_number l))) \<rparr>,
            w\<lparr>heap := heap w @ [TriviaArray ys, TriviaArray (slice_from_start ys (limit_number l))],
              rand_calls := k'\<rparr>)"
proof -
  have t: "lookup (heap w) trivia_ref = Some (TriviaArray ts)"
    using assms(1) by (simp add: store_holds_def)
  show ?thesis
    using assms(1-4)
    by (simp add: trivia_handler_def store_holds_def category_array_def find_has_id
                  filter_sort_slice [OF t assms(5)])
qed

section \<open>The store is never written\<close>

lemma store_holds_grow:
  assumes "store_holds cs ts w"
  shows "store_holds cs ts (w\<lparr>heap := heap w @ hs, rand_calls := k\<rparr>)"
proof -
  have "categories_ref < length (heap w)" and "trivia_ref < length (heap w)"
    using assms by (auto simp: store_holds_def dest: lookup_Some_less)
  then show ?thesis
    using assms by (simp add: store_holds_def lookup_append_prefix)
qed

lemma store_holds_trivia_handler:
  assumes "store_holds cs ts w"
  shows "store_holds cs ts (snd (trivia_handler rnd c d l w))"
proof (cases "Number c \<in> set (category_ids cs)")
  case False
  then show ?thesis
    using assms by (simp add: trivia_handler_not_found [OF assms])
next
  case True
  show ?thesis
  proof (cases "num_less (limit_number l) (Finite 1) \<or> num_less (Finite 50) (limit_number l)")
    case True
    then show ?thesis
      using assms \<open>Number c \<in> set (category_ids cs)\<close>
      by (simp add: trivia_handler_bad_limit [OF assms])
  next
    case False
    obtain ys k' where sh:
      "shuffle_list rnd (filter (matching c (difficulty_or_default d)) ts) (rand_calls w) = (ys, k')"
      by (cases "shuffle_list rnd (filter (matching c (difficulty_or_default d)) ts) (rand_calls w)")
    show ?thesis
      using False \<open>Number c \<in> set (category_ids cs)\<close> store_holds_grow [OF assms]
      by (simp add: trivia_handler_success [OF assms _ _ _ sh])
  qed
qed

lemma store_holds_serve:
  assumes "store_holds cs ts w"
  shows "store_holds cs ts (snd (serve rnd req w))"
proof (cases req)
  case GetCategories
  then show ?thesis
    using assms by (simp add: categories_route_def)
next
  case (GetTrivia q)
  then show ?thesis
    using assms store_holds_trivia_handler [OF assms]
    by (simp add: trivia_route_def split: option.splits)
qed

lemma store_holds_serve_all:
  "store_holds cs ts w \<Longrightarrow> store_holds cs ts (serve_all rnd reqs w)"
  by (induction reqs arbitrary: w) (simp_all add: store_holds_serve)

lemma store_holds_boot: "store_holds cs ts (boot cs ts)"
  by (simp add: store_holds_def boot_def categories_ref_def trivia_ref_def)

lemma store_holds_running: "store_holds cs ts (serve_all rnd reqs (boot cs ts))"
  by (simp add: store_holds_serve_all store_holds_boot)

section \<open>The route\<close>

text \<open>A query that passes the schema reaches the handler.\<close>

lemma trivia_route_valid:
  assumes "validate_query q = None" and "category q = Some c"
  shows "trivia_route rnd q w = trivia_handler rnd c (difficulty q) (limit q) w"
  using assms by (simp add: trivia_route_def)

lemma trivia_route_invalid:
  assumes "validate_query q = Some m"
  shows "trivia_route rnd q w = (onError VALIDATION m, w)"
  using assms by (simp add: trivia_route_def)

lemma status_onError_VALIDATION: "status (onError VALIDATION m) = 400"
  by (simp add: onError_def sendError_def statusCodes_def)

text \<open>A response with status 200 comes from the last branch of the handler.\<close>

lemma trivia_route_200:
  assumes "store_holds cs ts w" and "category q = Some c"
      and "status (fst (trivia_route rnd q w)) = 200"
  shows "validate_query q = None \<and> Number c \<in> set (category_ids cs) \<and>
         \<not> num_less (limit_number (limit q)) (Finite 1) \<and>
         \<not> num_less (Finite 50) (limit_number (limit q))"
proof -
  have v: "validate_query q = None"
  proof (cases "validate_query q")
    case (Some m)
    then show ?thesis
      using assms(3) by (simp add: trivia_route_invalid status_onError_VALIDATION)
  qed simp
  have h: "status (fst (trivia_handler rnd c (difficulty q) (limit q) w)) = 200"
    using assms(3) by (simp add: trivia_route_valid [OF v assms(2)])
  have known: "Number c \<in> set (category_ids cs)"
  proof (rule ccontr)
    assume "Number c \<notin> set (category_ids cs)"
    then have "status (fst (trivia_handler rnd c (difficulty q) (limit q) w)) = 404"
      by (simp add: trivia_handler_not_found [OF assms(1)] sendError_def)
    with h show False by simp
  qed
  have in_range: "\<not> (num_less (limit_number (limit q)) (Finite 1) \<or>
                       num_less (Finite 50) (limit_number (limit q)))"
  proof
    assume "num_less (limit_number (limit q)) (Finite 1) \<or>
            num_less (Finite 50) (limit_number (limit q))"
    then have "status (fst (trivia_handler rnd c (difficulty q) (limit q) w)) = 400"
      by (simp add: trivia_handler_bad_limit [OF assms(1) known] sendError_def)
    with h show False by simp
  qed
  show ?thesis
    using v known in_range by simp
qed

text \<open>What a successful response holds.\<close>

lemma trivia_route_success:
  assumes "store_holds cs ts w" and "category q = Some c"
      and "status (fst (trivia_route rnd q w)) = 200"
  shows "\<exists>n. limit_number (limit q) = Finite n \<and> 1 \<le> n \<and> n \<le> 50 \<and>
             body (fst (trivia_route rnd q w)) =
               JArray (map json_of_trivia
                 (take (nat n) (fst (shuffle_list rnd
                    (filter (matching c (difficulty_or_default (difficulty q))) ts) (rand_calls w)))))"
proof -
  let ?p = "matching c (difficulty_or_default (difficulty q))"
  obtain ys k' where sh: "shuffle_list rnd (filter ?p ts) (rand_calls w) = (ys, k')"
    by (cases "shuffle_list rnd (filter ?p ts) (rand_calls w)")
  have ok: "validate_query q = None" "Number c \<in> set (category_ids cs)"
       "\<not> num_less (limit_number (limit q)) (Finite 1)"
       "\<not> num_less (Finite 50) (limit_number (limit q))"
    using trivia_route_200 [OF assms] by simp_all
  obtain n where n: "limit_number (limit q) = Finite n" "1 \<le> n" "n \<le> 50"
    using ok(3,4) by (cases "limit_number (limit q)") auto
  have "body (fst (trivia_route rnd q w)) = JArray (map json_of_trivia (take (nat n) ys))"
    using n by (simp add: trivia_route_valid [OF ok(1) assms(2)]
                          trivia_handler_success [OF assms(1) ok(2,3,4) sh])
  then show ?thesis
    using n sh by simp
qed

lemma json_field_trivia:
  "json_field ''category'' (json_of_trivia t) = Some (JNumber (t_category t))"
  "json_field ''difficulty'' (json_of_trivia t) = Some (JString (t_difficulty t))"
  by (simp_all add: json_of_trivia_def)

section \<open>Error responses and defaults\<close>

lemma error_type_sendError:
  "json_field ''error_type'' (body (sendError e s code)) = Some (JString code)"
  by (simp add: sendError_def)

lemma status_sendError: "status (sendError e (Some s) code) = s"
  by (simp add: sendError_def)

text \<open>Whatever the world, a response of the trivia route that is not a 200 is one of three errors.\<close>

lemma status_trivia_handler:
  "status (fst (trivia_handler rnd c d l w)) = 200 \<or>
   fst (trivia_handler rnd c d l w)
     = sendError ''Invalid value for parameter 'category'.'' (Some 404) ''NOT_FOUND'' \<or>
   fst (trivia_handler rnd c d l w)
     = sendError ''Invalid value for parameter 'limit'. Must be between 1 and 50.''
         (Some 400) ''VALIDATION''"
  by (simp add: trivia_handler_def split: prod.splits)

lemma trivia_route_error:
  assumes "status (fst (trivia_route rnd q w)) \<noteq> 200"
  shows "\<exists>e. fst (trivia_route rnd q w) = sendError e (Some 404) ''NOT_FOUND'' \<or>
             fst (trivia_route rnd q w) = sendError e (Some 400) ''VALIDATION''"
proof (cases "validate_query q")
  case (Some m)
  then have "fst (trivia_route rnd q w) = sendError m (Some 400) ''VALIDATION''"
    by (simp add: trivia_route_invalid onError_def statusCodes_def)
  then show ?thesis by blast
next
  case None
  show ?thesis
  proof (cases "category q")
    case none: None
    then have "fst (trivia_route rnd q w)
                 = sendError ''Missing or Invalid required parameter 'category'.'' (Some 400) ''VALIDATION''"
      using None by (simp add: trivia_route_def onError_def statusCodes_def)
    then show ?thesis by blast
  next
    case (Some c)
    then have eq: "trivia_route rnd q w = trivia_handler rnd c (difficulty q) (limit q) w"
      using None by (simp add: trivia_route_valid)
    show ?thesis
      using assms status_trivia_handler [of rnd c "difficulty q" "limit q" w]
      unfolding eq by blast
  qed
qed

lemma error_response_shape_sendError:
  assumes "specified_status code = Some s"
  shows "error_response_shape (sendError e (Some s) code)"
  using assms by (simp add: error_response_shape_def sendError_def BASE_URL_def)

lemma error_response_shape_onError: "error_response_shape (onError code message)"
  by (cases code)
     (simp_all add: onError_def statusCodes_def error_response_shape_sendError specified_status_def)

lemma Number_10: "Number ''10'' = Finite 10"
  by code_simp

lemma matches_digits_10: "matches_digits ''10''"
  by code_simp

lemma trivia_handler_defaults:
  "trivia_handler rnd c None l w = trivia_handler rnd c (Some ''any'') l w"
  "trivia_handler rnd c d None w = trivia_handler rnd c d (Some ''10'') w"
  by (simp_all add: trivia_handler_def difficulty_or_default_def limit_number_def Number_10)

lemma json_elements_sendError: "json_elements (body (sendError e s code)) = []"
  by (simp add: sendError_def)

lemma shuffle_list_Nil: "shuffle_list rnd [] k = ([], k)"
  by (simp add: shuffle_list_def)

lemma slice_from_start_Nil: "slice_from_start [] n = []"
  by (cases n) simp_all

text \<open>On a parsed category the callback of the handler is the filter of the specification.\<close>

lemma matching_specified:
  assumes "Number c = Finite n"
  shows "matching c (difficulty_or_default d) t = specified_match n d t"
  using assms
  by (cases d) (auto simp: matching_def specified_match_def difficulty_or_default_def)

section \<open>The claims\<close>

text \<open>
  In every theorem below, \<open>cs\<close> and \<open>ts\<close> are the categories and the trivia loaded when the
  process starts, \<open>reqs\<close> the requests served before the one at hand, and \<open>rnd\<close> the
  random source; \<open>serve_all rnd reqs (boot cs ts)\<close> is the world the request meets.
\<close>

subsection \<open>C1\<close>

text \<open>
  Claim C1. When a request to \<^verbatim>\<open>/v1/trivia\<close> succeeds with status 200, its category
  parameter is the id of an existing category, every question in the returned array has
  that id in its \<^verbatim>\<open>category\<close> field, and when the request names a difficulty \<open>d\<close> other
  than \<^verbatim>\<open>"any"\<close>, every returned question has \<open>d\<close> in its \<^verbatim>\<open>difficulty\<close> field.
\<close>

theorem trivia_returns_requested_category_and_difficulty:
  assumes "category q = Some c"
      and "r = fst (trivia_route rnd q (serve_all rnd reqs (boot cs ts)))"
      and "status r = 200"
  shows "Number c \<in> set (category_ids cs) \<and>
         (\<forall>j \<in> set (json_elements (body r)).
            (\<exists>n. Number c = Finite n \<and> json_field ''category'' j = Some (JNumber n)) \<and>
            (\<forall>d. difficulty q = Some d \<longrightarrow> d \<noteq> ''any'' \<longrightarrow>
                 json_field ''difficulty'' j = Some (JString d)))"
proof -
  let ?w = "serve_all rnd reqs (boot cs ts)"
  let ?p = "matching c (difficulty_or_default (difficulty q))"
  let ?ys = "fst (shuffle_list rnd (filter ?p ts) (rand_calls ?w))"
  have st: "store_holds cs ts ?w"
    by (rule store_holds_running)
  have s200: "status (fst (trivia_route rnd q ?w)) = 200"
    using assms(2,3) by simp
  obtain k where b: "body r = JArray (map json_of_trivia (take (nat k) ?ys))"
    using trivia_route_success [OF st assms(1) s200] assms(2) by auto
  have known: "Number c \<in> set (category_ids cs)"
    using trivia_route_200 [OF st assms(1) s200] by simp
  then obtain n where n: "Number c = Finite n"
    by (auto simp: category_ids_def)
  have kept: "specified_match n (difficulty q) t" if "t \<in> set (take (nat k) ?ys)" for t
  proof -
    have "t \<in> set ?ys"
      using that by (rule in_set_takeD)
    then have "t \<in> set (filter ?p ts)"
      by (simp only: set_shuffle_list)
    then have "?p t"
      by simp
    then show ?thesis
      by (simp only: matching_specified [OF n])
  qed
  have elems: "\<exists>t. j = json_of_trivia t \<and> specified_match n (difficulty q) t"
    if "j \<in> set (json_elements (body r))" for j
  proof -
    have "j \<in> json_of_trivia ` set (take (nat k) ?ys)"
      using that by (simp add: b)
    then show ?thesis
      using kept by blast
  qed
  have "(\<exists>n. Number c = Finite n \<and> json_field ''category'' j = Some (JNumber n)) \<and>
        (\<forall>d. difficulty q = Some d \<longrightarrow> d \<noteq> ''any'' \<longrightarrow>
             json_field ''difficulty'' j = Some (JString d))"
    if mem: "j \<in> set (json_elements (body r))" for j
  proof -
    obtain t where t: "j = json_of_trivia t" and m: "specified_match n (difficulty q) t"
      using elems [OF mem] by blast
    have c: "t_category t = n"
      using m unfolding specified_match_def by blast
    have d: "t_difficulty t = d" if "difficulty q = Some d" and "d \<noteq> ''any''" for d
      using m that unfolding specified_match_def by simp
    have "json_field ''category'' j = Some (JNumber n)"
      by (simp add: t json_field_trivia c)
    moreover have "json_field ''difficulty'' j = Some (JString d)"
      if "difficulty q = Some d" and "d \<noteq> ''any''" for d
      using d [OF that] by (simp add: t json_field_trivia)
    ultimately show ?thesis
      using n by blast
  qed
  then show ?thesis
    using known by blast
qed

theorem trivia_returns_requested_category_and_difficulty_witness:
  "category (sample_query ''1'' (Some ''hard'') None) = Some ''1'' \<and>
   difficulty (sample_query ''1'' (Some ''hard'') None) = Some ''hard'' \<and>
   ''hard'' \<noteq> ''any'' \<and>
   status (fst (trivia_route sample_rnd (sample_query ''1'' (Some ''hard'') None)
      (serve_all sample_rnd [GetTrivia (sample_query ''1'' None None)]
         (boot sample_categories sample_trivia)))) = 200 \<and>
   length (json_elements (body (fst (trivia_route sample_rnd
         (sample_query ''1'' (Some ''hard'') None)
         (serve_all sample_rnd [GetTrivia (sample_query ''1'' None None)]
            (boot sample_categories sample_trivia)))))) = 1 \<and>
   list_all (\<lambda>j. json_field ''category'' j = Some (JNumber 1) \<and>
                  json_field ''difficulty'' j = Some (JString ''hard''))
     (json_elements (body (fst (trivia_route sample_rnd
         (sample_query ''1'' (Some ''hard'') None)
         (serve_all sample_rnd [GetTrivia (sample_query ''1'' None None)]
            (boot sample_categories sample_trivia))))))"
proof -
  let ?q = "sample_query ''1'' (Some ''hard'') None"
  let ?w = "serve_all sample_rnd [GetTrivia (sample_query ''1'' None None)]
              (boot sample_categories sample_trivia)"
  have c: "category ?q = Some ''1''"
    by (simp add: sample_query_def)
  have d: "difficulty ?q = Some ''hard''"
    by (simp add: sample_query_def)
  have a: "''hard'' \<noteq> ''any''"
    by simp
  have s: "status (fst (trivia_route sample_rnd ?q ?w)) = 200"
    by code_simp
  have l: "length (json_elements (body (fst (trivia_route sample_rnd ?q ?w)))) = 1"
    by code_simp
  have n: "Number ''1'' = Finite 1"
    by code_simp
  have "list_all (\<lambda>j. json_field ''category'' j = Some (JNumber 1) \<and>
                       json_field ''difficulty'' j = Some (JString ''hard''))
          (json_elements (body (fst (trivia_route sample_rnd ?q ?w))))"
    using trivia_returns_requested_category_and_difficulty [OF c refl s] d a
    by (simp add: n list_all_iff)
  then show ?thesis
    using c d a s l by blast
qed

subsection \<open>C2\<close>



subsection \<open>C3\<close>

text \<open>
  Claim C3, as amended. When a request to \<^verbatim>\<open>/v1/trivia\<close> passes the query schema and its
  category parameter parses to a number that is the id of no existing category, the
  response is HTTP 404 with \<^verbatim>\<open>error_type\<close> \<^verbatim>\<open>NOT_FOUND\<close>. Nothing is asked of the limit
  beyond the schema, so the check comes before the check of the limit's range.
\<close>

theorem unknown_category_not_found:
  assumes "validate_query q = None"
      and "category q = Some c"
      and "Number c \<notin> set (category_ids cs)"
      and "r = fst (trivia_route rnd q (serve_all rnd reqs (boot cs ts)))"
  shows "status r = 404 \<and>
         json_field ''error_type'' (body r) = Some (JString ''NOT_FOUND'') \<and>
         r = sendError ''Invalid value for parameter 'category'.'' (Some 404) ''NOT_FOUND''"
proof -
  have st: "store_holds cs ts (serve_all rnd reqs (boot cs ts))"
    by (rule store_holds_running)
  have "r = sendError ''Invalid value for parameter 'category'.'' (Some 404) ''NOT_FOUND''"
    by (simp add: assms(4) trivia_route_valid [OF assms(1,2)]
                  trivia_handler_not_found [OF st assms(3)])
  then show ?thesis
    by (simp add: error_type_sendError status_sendError)
qed

theorem unknown_category_not_found_witness:
  "validate_query (sample_query ''99999'' None (Some ''0'')) = None \<and>
   category (sample_query ''99999'' None (Some ''0'')) = Some ''99999'' \<and>
   Number ''99999'' \<notin> set (category_ids sample_categories) \<and>
   (num_less (limit_number (limit (sample_query ''99999'' None (Some ''0'')))) (Finite 1)) \<and>
   status (fst (trivia_route sample_rnd (sample_query ''99999'' None (Some ''0''))
      (serve_all sample_rnd [] (boot sample_categories sample_trivia)))) = 404 \<and>
   json_field ''error_type'' (body (fst (trivia_route sample_rnd
      (sample_query ''99999'' None (Some ''0''))
      (serve_all sample_rnd [] (boot sample_categories sample_trivia)))))
     = Some (JString ''NOT_FOUND'')"
proof -
  let ?q = "sample_query ''99999'' None (Some ''0'')"
  have v: "validate_query ?q = None"
    by code_simp
  have c: "category ?q = Some ''99999''"
    by (simp add: sample_query_def)
  have u: "Number ''99999'' \<notin> set (category_ids sample_categories)"
    by code_simp
  have l: "num_less (limit_number (limit ?q)) (Finite 1)"
    by code_simp
  show ?thesis
    using v c u l unknown_category_not_found [OF v c u refl, of sample_rnd "[]" sample_trivia]
    by blast
qed

text \<open>
  Without the schema the claim fails: the category 99999 is the id of no sample category,
  but with the difficulty \<^verbatim>\<open>expert\<close> the query is rejected before the handler runs, and the
  response is a 400 with \<^verbatim>\<open>error_type\<close> \<^verbatim>\<open>VALIDATION\<close>.
\<close>

theorem unknown_category_invalid_difficulty_counterexample:
  "matches_digits ''99999'' \<and>
   Number ''99999'' = Finite 99999 \<and>
   Number ''99999'' \<notin> set (category_ids sample_categories) \<and>
   status (fst (trivia_route sample_rnd (sample_query ''99999'' (Some ''expert'') None)
      (boot sample_categories sample_trivia))) = 400 \<and>
   json_field ''error_type'' (body (fst (trivia_route sample_rnd
      (sample_query ''99999'' (Some ''expert'') None)
      (boot sample_categories sample_trivia)))) = Some (JString ''VALIDATION'')"
  by code_simp

subsection \<open>C4\<close>

text \<open>
  Claim C4. When the category parameter of a request to \<^verbatim>\<open>/v1/trivia\<close> parses to the id of an
  existing category and its limit parses to a number outside the range from 1 to 50, the
  response is HTTP 400 with \<^verbatim>\<open>error_type\<close> \<^verbatim>\<open>VALIDATION\<close>.
\<close>

theorem limit_out_of_range_validation:
  assumes "category q = Some c" and "matches_digits c"
      and "Number c \<in> set (category_ids cs)"
      and "limit q = Some l" and "matches_digits l"
      and "num_less (Number l) (Finite 1) \<or> num_less (Finite 50) (Number l)"
      and "r = fst (trivia_route rnd q (serve_all rnd reqs (boot cs ts)))"
  shows "status r = 400 \<and> json_field ''error_type'' (body r) = Some (JString ''VALIDATION'')"
proof (cases "validate_query q")
  case (Some m)
  then have "r = onError VALIDATION m"
    by (simp add: assms(7) trivia_route_invalid)
  then show ?thesis
    by (simp add: onError_def statusCodes_def error_type_sendError status_sendError)
next
  case None
  have st: "store_holds cs ts (serve_all rnd reqs (boot cs ts))"
    by (rule store_holds_running)
  have "num_less (limit_number (limit q)) (Finite 1) \<or> num_less (Finite 50) (limit_number (limit q))"
    using assms(4,6) by (simp add: limit_number_def)
  then have "r = sendError ''Invalid value for parameter 'limit'. Must be between 1 and 50.''
                   (Some 400) ''VALIDATION''"
    by (simp add: assms(7) trivia_route_valid [OF None assms(1)]
                  trivia_handler_bad_limit [OF st assms(3)])
  then show ?thesis
    by (simp add: error_type_sendError status_sendError)
qed

theorem limit_out_of_range_validation_witness:
  "category (sample_query ''2'' (Some ''hard'') (Some ''51'')) = Some ''2'' \<and>
   matches_digits ''2'' \<and> Number ''2'' \<in> set (category_ids sample_categories) \<and>
   limit (sample_query ''2'' (Some ''hard'') (Some ''51'')) = Some ''51'' \<and>
   matches_digits ''51'' \<and>
   (num_less (Number ''51'') (Finite 1) \<or> num_less (Finite 50) (Number ''51'')) \<and>
   status (fst (trivia_route sample_rnd (sample_query ''2'' (Some ''hard'') (Some ''51''))
      (serve_all sample_rnd [] (boot sample_categories sample_trivia)))) = 400 \<and>
   json_field ''error_type'' (body (fst (trivia_route sample_rnd
      (sample_query ''2'' (Some ''hard'') (Some ''51''))
      (serve_all sample_rnd [] (boot sample_categories sample_trivia)))))
     = Some (JString ''VALIDATION'')"
proof -
  let ?q = "sample_query ''2'' (Some ''hard'') (Some ''51'')"
  have c: "category ?q = Some ''2''"
    by (simp add: sample_query_def)
  have l: "limit ?q = Some ''51''"
    by (simp add: sample_query_def)
  have dc: "matches_digits ''2''"
    by code_simp
  have dl: "matches_digits ''51''"
    by code_simp
  have k: "Number ''2'' \<in> set (category_ids sample_categories)"
    by code_simp
  have o: "num_less (Number ''51'') (Finite 1) \<or> num_less (Finite 50) (Number ''51'')"
    by code_simp
  show ?thesis
    using c l dc dl k o
      limit_out_of_range_validation [OF c dc k l dl o refl, of sample_rnd "[]" sample_trivia]
    by blast
qed

subsection \<open>C5\<close>

text \<open>
  Claim C5. When a request to \<^verbatim>\<open>/v1/trivia\<close> for the category id \<open>n\<close> succeeds and its limit
  is at least the number of questions of the store that the filter of the specification
  selects for \<open>n\<close> and the requested difficulty, then, whatever the random source yields,
  the returned array holds exactly those questions, each as often as the store has it: the
  shuffle and the truncation change their order only.
\<close>

theorem trivia_full_result_is_permutation:
  assumes "category q = Some c"
      and "Number c = Finite n"
      and "r = fst (trivia_route rnd q (serve_all rnd reqs (boot cs ts)))"
      and "status r = 200"
      and "\<not> num_less (limit_number (limit q))
               (Finite (int (length (filter (specified_match n (difficulty q)) ts))))"
  shows "\<exists>ys. body r = JArray (map json_of_trivia ys) \<and>
              mset ys = mset (filter (specified_match n (difficulty q)) ts)"
proof -
  let ?w = "serve_all rnd reqs (boot cs ts)"
  let ?p = "matching c (difficulty_or_default (difficulty q))"
  let ?ys = "fst (shuffle_list rnd (filter ?p ts) (rand_calls ?w))"
  have same: "filter ?p ts = filter (specified_match n (difficulty q)) ts"
    by (rule filter_cong) (simp_all add: matching_specified [OF assms(2)])
  have st: "store_holds cs ts ?w"
    by (rule store_holds_running)
  have s200: "status (fst (trivia_route rnd q ?w)) = 200"
    using assms(3,4) by simp
  obtain k where k: "limit_number (limit q) = Finite k" "1 \<le> k"
    and b: "body r = JArray (map json_of_trivia (take (nat k) ?ys))"
    using trivia_route_success [OF st assms(1) s200] assms(3) by auto
  have "length ?ys = length (filter (specified_match n (difficulty q)) ts)"
    by (simp only: length_shuffle_list same)
  then have "length ?ys \<le> nat k"
    using assms(5) k by simp
  then have "take (nat k) ?ys = ?ys"
    by simp
  moreover have "mset ?ys = mset (filter (specified_match n (difficulty q)) ts)"
    by (simp only: mset_shuffle_list same)
  ultimately show ?thesis
    using b by auto
qed

theorem trivia_full_result_is_permutation_witness:
  "category (sample_query ''1'' (Some ''easy'') None) = Some ''1'' \<and>
   Number ''1'' = Finite 1 \<and>
   status (fst (trivia_route sample_rnd (sample_query ''1'' (Some ''easy'') None)
      (serve_all sample_rnd [] (boot sample_categories sample_trivia)))) = 200 \<and>
   \<not> num_less (limit_number (limit (sample_query ''1'' (Some ''easy'') None)))
        (Finite (int (length (filter
           (specified_match 1 (difficulty (sample_query ''1'' (Some ''easy'') None)))
           sample_trivia)))) \<and>
   filter (specified_match 1 (difficulty (sample_query ''1'' (Some ''easy'') None))) sample_trivia
     = [sample_question 1 1 ''easy'', sample_question 3 1 ''easy'', sample_question 4 1 ''easy''] \<and>
   (\<exists>ys. body (fst (trivia_route sample_rnd (sample_query ''1'' (Some ''easy'') None)
            (serve_all sample_rnd [] (boot sample_categories sample_trivia))))
          = JArray (map json_of_trivia ys) \<and>
         mset ys = mset (filter
            (specified_match 1 (difficulty (sample_query ''1'' (Some ''easy'') None)))
            sample_trivia))"
proof -
  let ?q = "sample_query ''1'' (Some ''easy'') None"
  let ?w = "serve_all sample_rnd [] (boot sample_categories sample_trivia)"
  have c: "category ?q = Some ''1''"
    by (simp add: sample_query_def)
  have n: "Number ''1'' = Finite 1"
    by code_simp
  have s: "status (fst (trivia_route sample_rnd ?q ?w)) = 200"
    by code_simp
  have l: "\<not> num_less (limit_number (limit ?q))
             (Finite (int (length (filter (specified_match 1 (difficulty ?q)) sample_trivia))))"
    by code_simp
  have f: "filter (specified_match 1 (difficulty ?q)) sample_trivia
     = [sample_question 1 1 ''easy'', sample_question 3 1 ''easy'', sample_question 4 1 ''easy'']"
    by code_simp
  show ?thesis
    using c n s l f trivia_full_result_is_permutation [OF c n refl s l]
    by blast
qed

subsection \<open>C6\<close>

text \<open>
  Claim C6. The handler of \<^verbatim>\<open>/v1/categories\<close> takes no parameter; whatever was served
  before, it answers with status 200 and the JSON array of the categories loaded at the
  start, each rendered by an injective rendering, in their stored order, and every element
  has the members \<^verbatim>\<open>id\<close>, \<^verbatim>\<open>image\<close> and \<^verbatim>\<open>name\<close>.
\<close>

theorem categories_returns_store:
  "fst (categories_route (serve_all rnd reqs (boot cs ts)))
     = \<lparr> status = 200, headers = json_headers, body = JArray (map json_of_category cs) \<rparr> \<and>
   inj json_of_category \<and>
   (\<forall>j \<in> set (json_elements (body (fst (categories_route (serve_all rnd reqs (boot cs ts)))))).
      map fst (json_members j) = [''id'', ''image'', ''name''])"
proof -
  have "store_holds cs ts (serve_all rnd reqs (boot cs ts))"
    by (rule store_holds_running)
  then have r: "fst (categories_route (serve_all rnd reqs (boot cs ts)))
     = \<lparr> status = 200, headers = json_headers, body = JArray (map json_of_category cs) \<rparr>"
    by (simp add: categories_route_def category_array_def store_holds_def)
  have i: "inj json_of_category"
    by (rule injI) (simp add: json_of_category_def)
  have "map fst (json_members (json_of_category c)) = [''id'', ''image'', ''name'']" for c
    by (simp add: json_of_category_def)
  then show ?thesis
    using i by (auto simp: r)
qed

theorem categories_returns_store_witness:
  "fst (categories_route (serve_all sample_rnd [GetTrivia (sample_query ''1'' None None)]
      (boot sample_categories sample_trivia)))
     = \<lparr> status = 200, headers = json_headers,
         body = JArray (map json_of_category sample_categories) \<rparr> \<and>
   list_all (\<lambda>j. map fst (json_members j) = [''id'', ''image'', ''name''])
     (json_elements (body (fst (categories_route
        (serve_all sample_rnd [GetTrivia (sample_query ''1'' None None)]
           (boot sample_categories sample_trivia))))))"
  using categories_returns_store [of sample_rnd "[GetTrivia (sample_query ''1'' None None)]"
      sample_categories sample_trivia]
  unfolding list_all_iff by blast

subsection \<open>C7\<close>

text \<open>
  Claim C7. A request to \<^verbatim>\<open>/v1/trivia\<close> without a difficulty is answered exactly as the same
  request with the difficulty \<^verbatim>\<open>any\<close>, that is with no filtering by difficulty, and a
  request without a limit exactly as the same request with the limit 10, so that it returns
  at most 10 questions. This holds of the handler and of the route as a whole.
\<close>

theorem trivia_defaults:
  "trivia_handler rnd c None l w = trivia_handler rnd c (Some ''any'') l w \<and>
   trivia_handler rnd c d None w = trivia_handler rnd c d (Some ''10'') w \<and>
   trivia_route rnd (q\<lparr>difficulty := None\<rparr>) w = trivia_route rnd (q\<lparr>difficulty := Some ''any''\<rparr>) w \<and>
   trivia_route rnd (q\<lparr>limit := None\<rparr>) w = trivia_route rnd (q\<lparr>limit := Some ''10''\<rparr>) w \<and>
   matching c (difficulty_or_default None) t = (Finite (t_category t) = Number c) \<and>
   (limit q = None \<longrightarrow>
      length (json_elements (body (fst (trivia_route rnd q (serve_all rnd reqs (boot cs ts)))))) \<le> 10)"
proof -
  have vd: "validate_query (q\<lparr>difficulty := None\<rparr>) = validate_query (q\<lparr>difficulty := Some ''any''\<rparr>)"
    by (simp add: validate_query_def difficulty_ok_def)
  have vl: "validate_query (q\<lparr>limit := None\<rparr>) = validate_query (q\<lparr>limit := Some ''10''\<rparr>)"
    by (simp add: validate_query_def limit_ok_def matches_digits_10)
  have rd: "trivia_route rnd (q\<lparr>difficulty := None\<rparr>) w
              = trivia_route rnd (q\<lparr>difficulty := Some ''any''\<rparr>) w"
    unfolding trivia_route_def vd
    by (simp add: trivia_handler_defaults split: option.splits)
  have rl: "trivia_route rnd (q\<lparr>limit := None\<rparr>) w = trivia_route rnd (q\<lparr>limit := Some ''10''\<rparr>) w"
    unfolding trivia_route_def vl
    by (simp add: trivia_handler_defaults split: option.splits)
  have m: "matching c (difficulty_or_default None) t = (Finite (t_category t) = Number c)"
    by (simp add: matching_def difficulty_or_default_def)
  have ten: "length (json_elements (body (fst (trivia_route rnd q (serve_all rnd reqs (boot cs ts)))))) \<le> 10"
    if omitted: "limit q = None"
  proof (cases "status (fst (trivia_route rnd q (serve_all rnd reqs (boot cs ts)))) = 200")
    case False
    then obtain e where
      "fst (trivia_route rnd q (serve_all rnd reqs (boot cs ts))) = sendError e (Some 404) ''NOT_FOUND'' \<or>
       fst (trivia_route rnd q (serve_all rnd reqs (boot cs ts))) = sendError e (Some 400) ''VALIDATION''"
      using trivia_route_error by blast
    then show ?thesis
      by (auto simp: json_elements_sendError)
  next
    case True
    have st: "store_holds cs ts (serve_all rnd reqs (boot cs ts))"
      by (rule store_holds_running)
    obtain c' where c': "category q = Some c'"
    proof (cases "category q")
      case None
      then have "status (fst (trivia_route rnd q (serve_all rnd reqs (boot cs ts)))) = 400"
        by (simp add: trivia_route_def validate_query_def category_ok_def status_onError_VALIDATION)
      with True show ?thesis by simp
    next
      case (Some x)
      then show ?thesis by (rule that)
    qed
    obtain n where n: "limit_number (limit q) = Finite n"
      and b: "body (fst (trivia_route rnd q (serve_all rnd reqs (boot cs ts)))) =
               JArray (map json_of_trivia
                 (take (nat n) (fst (shuffle_list rnd
                    (filter (matching c' (difficulty_or_default (difficulty q))) ts)
                    (rand_calls (serve_all rnd reqs (boot cs ts)))))))"
      using trivia_route_success [OF st c' True] by blast
    have "n = 10"
      using n omitted by (simp add: limit_number_def)
    then show ?thesis
      by (simp add: b)
  qed
  show ?thesis
    using trivia_handler_defaults rd rl m ten by blast
qed

theorem trivia_defaults_witness:
  "limit (sample_query ''1'' None None) = None \<and>
   length (json_elements (body (fst (trivia_route sample_rnd (sample_query ''1'' None None)
     (serve_all sample_rnd [] (boot sample_categories sample_trivia)))))) \<le> 10 \<and>
   trivia_route sample_rnd ((sample_query ''1'' None None)\<lparr>difficulty := None\<rparr>)
       (boot sample_categories sample_trivia)
     = trivia_route sample_rnd ((sample_query ''1'' None None)\<lparr>difficulty := Some ''any''\<rparr>)
       (boot sample_categories sample_trivia) \<and>
   trivia_route sample_rnd ((sample_query ''1'' None None)\<lparr>limit := None\<rparr>)
       (boot sample_categories sample_trivia)
     = trivia_route sample_rnd ((sample_query ''1'' None None)\<lparr>limit := Some ''10''\<rparr>)
       (boot sample_categories sample_trivia)"
proof -
  have l: "limit (sample_query ''1'' None None) = None"
    by (simp add: sample_query_def)
  show ?thesis
    using l trivia_defaults [of sample_rnd "''1''" None "boot sample_categories sample_trivia" None
        "sample_query ''1'' None None" "sample_question 1 1 ''easy''" "[]"
        sample_categories sample_trivia]
    by blast
qed

subsection \<open>C8\<close>

text \<open>
  Claim C8. Every error response of the server, whether \<^verbatim>\<open>onError\<close> builds it from an error
  of the framework or a handler returns it, has the shape the specification gives: a JSON
  object with exactly \<^verbatim>\<open>error_type\<close>, \<^verbatim>\<open>error\<close> and \<^verbatim>\<open>docs\<close>, the error type one of the
  five names, \<^verbatim>\<open>docs\<close> the fixed link, and the status 400 for \<^verbatim>\<open>VALIDATION\<close> and \<^verbatim>\<open>PARSE\<close>,
  404 for \<^verbatim>\<open>NOT_FOUND\<close>, 500 for \<^verbatim>\<open>INTERNAL_SERVER_ERROR\<close> and \<^verbatim>\<open>UNKNOWN\<close>.
\<close>

theorem error_responses_shape:
  "error_response_shape (onError code message) \<and>
   (status (fst (serve rnd req w)) \<noteq> 200 \<longrightarrow> error_response_shape (fst (serve rnd req w)))"
proof -
  have "error_response_shape (fst (serve rnd req w))" if bad: "status (fst (serve rnd req w)) \<noteq> 200"
  proof (cases req)
    case GetCategories
    then show ?thesis
      using bad by (simp add: categories_route_def)
  next
    case (GetTrivia q)
    then have "status (fst (trivia_route rnd q w)) \<noteq> 200"
      using bad by simp
    then obtain e where
      "fst (trivia_route rnd q w) = sendError e (Some 404) ''NOT_FOUND'' \<or>
       fst (trivia_route rnd q w) = sendError e (Some 400) ''VALIDATION''"
      using trivia_route_error by blast
    moreover have "error_response_shape (sendError e (Some 404) ''NOT_FOUND'')"
      by (rule error_response_shape_sendError) (simp add: specified_status_def)
    moreover have "error_response_shape (sendError e (Some 400) ''VALIDATION'')"
      by (rule error_response_shape_sendError) (simp add: specified_status_def)
    ultimately show ?thesis
      using GetTrivia by auto
  qed
  then show ?thesis
    using error_response_shape_onError by blast
qed

theorem error_responses_shape_witness:
  "status (fst (serve sample_rnd (GetTrivia (sample_query ''abc'' None None))
      (boot sample_categories sample_trivia))) \<noteq> 200 \<and>
   error_response_shape (fst (serve sample_rnd (GetTrivia (sample_query ''abc'' None None))
      (boot sample_categories sample_trivia))) \<and>
   error_response_shape (onError INTERNAL_SERVER_ERROR ''boom'')"
proof -
  have s: "status (fst (serve sample_rnd (GetTrivia (sample_query ''abc'' None None))
      (boot sample_categories sample_trivia))) \<noteq> 200"
    by code_simp
  show ?thesis
    using s error_responses_shape [of INTERNAL_SERVER_ERROR "''boom''" sample_rnd
        "GetTrivia (sample_query ''abc'' None None)" "boot sample_categories sample_trivia"]
    by blast
qed

subsection \<open>C9\<close>

text \<open>
  Claim C9. After any sequence of requests to \<^verbatim>\<open>/v1/categories\<close> and \<^verbatim>\<open>/v1/trivia\<close> the two
  module bindings still hold the categories and the trivia loaded at the start, contents
  and order; the array that the handler sorts in place is the one \<^verbatim>\<open>filter\<close> has just
  allocated, at an address that held nothing before.
\<close>

theorem store_unchanged:
  "lookup (heap (serve_all rnd reqs (boot cs ts))) categories_ref = Some (CategoryArray cs) \<and>
   lookup (heap (serve_all rnd reqs (boot cs ts))) trivia_ref = Some (TriviaArray ts) \<and>
   lookup (heap (serve_all rnd reqs (boot cs ts)))
     (fst (Array_filter p trivia_ref (serve_all rnd reqs (boot cs ts)))) = None"
proof -
  have fresh: "lookup h (length h) = None" for h :: "obj list"
    by (induction h) simp_all
  have "store_holds cs ts (serve_all rnd reqs (boot cs ts))"
    by (rule store_holds_running)
  then show ?thesis
    by (simp add: store_holds_def Array_filter_def alloc_def fresh)
qed

theorem store_unchanged_witness:
  "lookup (heap (serve_all sample_rnd
       [GetTrivia (sample_query ''1'' None None), GetCategories,
        GetTrivia (sample_query ''1'' (Some ''easy'') (Some ''2''))]
       (boot sample_categories sample_trivia))) trivia_ref
     = Some (TriviaArray sample_trivia)"
  using store_unchanged [of sample_rnd
      "[GetTrivia (sample_query ''1'' None None), GetCategories,
        GetTrivia (sample_query ''1'' (Some ''easy'') (Some ''2''))]"
      sample_categories sample_trivia]
  by blast

subsection \<open>C10\<close>

text \<open>
  Claim C10, as amended. When a request to \<^verbatim>\<open>/v1/trivia\<close> passes the query schema, its
  category is the id of an existing category, its limit lies between 1 and 50, and no
  question of the store matches the category and difficulty filter, the response is HTTP
  200 with an empty JSON array.
\<close>

theorem empty_result_ok:
  assumes "validate_query q = None"
      and "category q = Some c"
      and "Number c \<in> set (category_ids cs)"
      and "\<not> num_less (limit_number (limit q)) (Finite 1)"
      and "\<not> num_less (Finite 50) (limit_number (limit q))"
      and "filter (matching c (difficulty_or_default (difficulty q))) ts = []"
      and "r = fst (trivia_route rnd q (serve_all rnd reqs (boot cs ts)))"
  shows "r = \<lparr> status = 200, headers = json_headers, body = JArray [] \<rparr>"
proof -
  let ?w = "serve_all rnd reqs (boot cs ts)"
  have st: "store_holds cs ts ?w"
    by (rule store_holds_running)
  have sh: "shuffle_list rnd (filter (matching c (difficulty_or_default (difficulty q))) ts)
              (rand_calls ?w) = ([], rand_calls ?w)"
    by (simp add: assms(6) shuffle_list_Nil)
  show ?thesis
    by (simp add: assms(7) trivia_route_valid [OF assms(1,2)]
                  trivia_handler_success [OF st assms(3,4,5) sh] slice_from_start_Nil)
qed

theorem empty_result_ok_witness:
  "validate_query (sample_query ''2'' (Some ''easy'') (Some ''5'')) = None \<and>
   category (sample_query ''2'' (Some ''easy'') (Some ''5'')) = Some ''2'' \<and>
   Number ''2'' \<in> set (category_ids sample_categories) \<and>
   \<not> num_less (limit_number (limit (sample_query ''2'' (Some ''easy'') (Some ''5'')))) (Finite 1) \<and>
   \<not> num_less (Finite 50) (limit_number (limit (sample_query ''2'' (Some ''easy'') (Some ''5'')))) \<and>
   filter (matching ''2'' (difficulty_or_default (difficulty (sample_query ''2'' (Some ''easy'') (Some ''5'')))))
     sample_trivia = [] \<and>
   fst (trivia_route sample_rnd (sample_query ''2'' (Some ''easy'') (Some ''5''))
      (serve_all sample_rnd [] (boot sample_categories sample_trivia)))
     = \<lparr> status = 200, headers = json_headers, body = JArray [] \<rparr>"
proof -
  let ?q = "sample_query ''2'' (Some ''easy'') (Some ''5'')"
  have v: "validate_query ?q = None"
    by code_simp
  have c: "category ?q = Some ''2''"
    by (simp add: sample_query_def)
  have k: "Number ''2'' \<in> set (category_ids sample_categories)"
    by code_simp
  have l1: "\<not> num_less (limit_number (limit ?q)) (Finite 1)"
    by code_simp
  have l2: "\<not> num_less (Finite 50) (limit_number (limit ?q))"
    by code_simp
  have e: "filter (matching ''2'' (difficulty_or_default (difficulty ?q))) sample_trivia = []"
    by code_simp
  show ?thesis
    using v c k l1 l2 e
      empty_result_ok [OF v c k l1 l2 e refl, of sample_rnd "[]"]
    by blast
qed

text \<open>
  Without the schema the claim fails: no sample question is in category 2, the limit 5 is
  in range, but the difficulty \<^verbatim>\<open>expert\<close> is rejected before the handler runs, and the
  response is a 400.
\<close>

theorem empty_result_invalid_difficulty_counterexample:
  "Number ''2'' \<in> set (category_ids sample_categories) \<and>
   \<not> num_less (Number ''5'') (Finite 1) \<and> \<not> num_less (Finite 50) (Number ''5'') \<and>
   filter (matching ''2'' ''expert'') sample_trivia = [] \<and>
   status (fst (trivia_route sample_rnd (sample_query ''2'' (Some ''expert'') (Some ''5''))
      (boot sample_categories sample_trivia))) = 400 \<and>
   json_field ''error_type'' (body (fst (trivia_route sample_rnd
      (sample_query ''2'' (Some ''expert'') (Some ''5''))
      (boot sample_categories sample_trivia)))) = Some (JString ''VALIDATION'')"
  by code_simp

end
